theory Spec2Isabelle
  imports Main
begin

section \<open>The registration page (Register.jsx)\<close>

text \<open>
  The page is one React function component. Its seven \<open>useState\<close> cells, the value of
  the DOM input behind \<open>emailRef\<close>, and the two collaborators it calls (\<open>axios.post\<close> and
  \<open>navigate\<close>) are modelled by explicit state passing: every handler is a function from the
  state before the event to the state after it, and the calls made on the collaborators are
  appended to logs kept in the state. React batches the setter calls of one handler, so the
  state after a handler is the state after its setter calls taken in program order.

  A JavaScript string is modelled as the list of its code units.
\<close>

subsection \<open>Imported modules that are parameters of the model\<close>

text \<open>
  \<open>RegexUtil\<close> (\<open>utils/regex-util\<close>) supplies the four format predicates and the two
  minimum lengths; \<open>ROUTES\<close> (\<open>routes\<close>) supplies the login route. The page only calls
  them, so they are parameters of every handler that uses them.
\<close>

record RegexUtil =
  isValidEmailFormat :: "string \<Rightarrow> bool"
  isValidPhoneFormat :: "string \<Rightarrow> bool"
  isValidUsernameFormat :: "string \<Rightarrow> bool"
  isValidPasswordFormat :: "string \<Rightarrow> bool"
  MIN_USERNAME_LENGTH :: nat
  MIN_PASSWORD_LENGTH :: nat

record ROUTES =
  LOGIN :: string

subsection \<open>Error messages\<close>

definition EXISTING_CREDENTIALS_ERROR :: string where
  "EXISTING_CREDENTIALS_ERROR = ''Email, phone number, or username already taken.''"

definition INVALID_EMAIL_ERROR :: string where
  "INVALID_EMAIL_ERROR = ''Invalid email format.''"

definition INVALID_PHONE_ERROR :: string where
  "INVALID_PHONE_ERROR = ''Invalid phone format.''"

definition INVALID_USERNAME_ERROR :: string where
  "INVALID_USERNAME_ERROR =
     ''Invalid username. Username cannot contain spaces and minimum length must be at least ''"

definition INVALID_PASSWORD_ERROR :: string where
  "INVALID_PASSWORD_ERROR = ''Invalid password. The length must be at least ''"

definition GENERIC_SERVER_ERROR :: string where
  "GENERIC_SERVER_ERROR =
     ''There was a problem registering your account. Please try again later.''"

text \<open>
  \<open>ERROR + RegexUtil.MIN_USERNAME_LENGTH + "."\<close> concatenates a number to a string:
  JavaScript renders a non-negative integer in decimal.
\<close>

function toString :: "nat \<Rightarrow> string" where
  "toString n =
     (if n < 10 then [''0123456789'' ! n]
      else toString (n div 10) @ [''0123456789'' ! (n mod 10)])"
  by pat_completeness auto
termination
  by (relation "measure (\<lambda>n. n)") auto

declare toString.simps [simp del]

subsection \<open>State\<close>

text \<open>
  A request is the URL and the JSON body handed to \<open>axios.post\<close>, the body as the list of
  its keys and values in the order of the object literal. A navigation is the route and the
  content of the \<open>state\<close> option handed to \<open>navigate\<close>.
\<close>

datatype request = Post string "(string \<times> string) list"

datatype navigation = Navigate string "(string \<times> bool) list"

text \<open>
  How the promise of \<open>axios.post\<close> settles: it resolves, or it rejects with an error whose
  \<open>response.status\<close> is the given code; \<open>None\<close> is an error without \<open>response\<close>
  (no answer from the network).
\<close>

datatype outcome = Resolved | Rejected "int option"

record state =
  email :: string
  phone :: string
  password :: string
  username :: string
  isValidCredentials :: bool
  clickedGetStarted :: bool
  errorMessage :: string
  emailRef :: string
  requests :: "request list"
  inFlight :: nat
  navigations :: "navigation list"

text \<open>
  \<open>emailRef\<close> is \<open>emailRef.current.value\<close>, the text in the email input;
  \<open>requests\<close> logs every \<open>axios.post\<close> call, \<open>inFlight\<close> counts the calls of
  \<open>performRegister\<close> that are suspended at their \<open>await\<close>, and \<open>navigations\<close> logs
  every \<open>navigate\<close> call.
\<close>

definition init :: state where
  "init = \<lparr>email = [], phone = [], password = [], username = [],
            isValidCredentials = True, clickedGetStarted = False,
            errorMessage = EXISTING_CREDENTIALS_ERROR, emailRef = [],
            requests = [], inFlight = 0, navigations = []\<rparr>"

subsection \<open>Setters\<close>

definition setEmail :: "string \<Rightarrow> state \<Rightarrow> state" where
  "setEmail v s = s\<lparr>email := v\<rparr>"

definition setPhone :: "string \<Rightarrow> state \<Rightarrow> state" where
  "setPhone v s = s\<lparr>phone := v\<rparr>"

definition setPassword :: "string \<Rightarrow> state \<Rightarrow> state" where
  "setPassword v s = s\<lparr>password := v\<rparr>"

definition setUsername :: "string \<Rightarrow> state \<Rightarrow> state" where
  "setUsername v s = s\<lparr>username := v\<rparr>"

definition setIsValidCredentials :: "bool \<Rightarrow> state \<Rightarrow> state" where
  "setIsValidCredentials v s = s\<lparr>isValidCredentials := v\<rparr>"

definition setclickedGetStarted :: "bool \<Rightarrow> state \<Rightarrow> state" where
  "setclickedGetStarted v s = s\<lparr>clickedGetStarted := v\<rparr>"

definition setErrorMessage :: "string \<Rightarrow> state \<Rightarrow> state" where
  "setErrorMessage v s = s\<lparr>errorMessage := v\<rparr>"

subsection \<open>Handlers\<close>

definition isEmailBoxFilled :: "state \<Rightarrow> bool" where
  "isEmailBoxFilled s \<longleftrightarrow> length (emailRef s) > 0"

text \<open>
  \<open>performRegister\<close> is an \<open>async\<close> function. Up to its \<open>await\<close> it runs inside the
  handler that called it: it issues the POST request. The rest of its body runs when the
  promise settles, and is the function \<open>performRegister_settled\<close>.
\<close>

definition performRegister :: "state \<Rightarrow> state" where
  "performRegister s =
     s\<lparr>requests := requests s @
          [Post ''auth/register''
             [(''username'', username s), (''email'', email s),
              (''phone'', phone s), (''password'', password s)]],
       inFlight := inFlight s + 1\<rparr>"

definition performRegister_settled :: "ROUTES \<Rightarrow> outcome \<Rightarrow> state \<Rightarrow> state" where
  "performRegister_settled routes r s =
     (case r of
        Resolved \<Rightarrow>
          s\<lparr>navigations := navigations s @
               [Navigate (LOGIN routes) [(''justRegistered'', True)]]\<rparr>
      | Rejected status \<Rightarrow>
          setIsValidCredentials False
            (if status = Some 403 then setErrorMessage EXISTING_CREDENTIALS_ERROR s
             else setErrorMessage GENERIC_SERVER_ERROR s))"

definition handleRegister :: "RegexUtil \<Rightarrow> state \<Rightarrow> state" where
  "handleRegister ru s =
     (let s1 = setIsValidCredentials True s in
      if \<not> isValidEmailFormat ru (email s) then
        setErrorMessage INVALID_EMAIL_ERROR (setIsValidCredentials False s1)
      else if \<not> isValidPhoneFormat ru (phone s) then
        setErrorMessage INVALID_PHONE_ERROR (setIsValidCredentials False s1)
      else if \<not> isValidUsernameFormat ru (username s) then
        setErrorMessage
          (INVALID_USERNAME_ERROR @ toString (MIN_USERNAME_LENGTH ru) @ ''.'')
          (setIsValidCredentials False s1)
      else if \<not> isValidPasswordFormat ru (password s) then
        setErrorMessage
          (INVALID_PASSWORD_ERROR @ toString (MIN_PASSWORD_LENGTH ru) @ ''.'')
          (setIsValidCredentials False s1)
      else performRegister s1)"

definition handleGetStarted :: "RegexUtil \<Rightarrow> state \<Rightarrow> state" where
  "handleGetStarted ru s =
     (if clickedGetStarted s then handleRegister ru s
      else if isEmailBoxFilled s then setclickedGetStarted True s
      else s)"

text \<open>
  What the page shows in its error paragraph: the paragraph is hidden while
  \<open>isValidCredentials\<close> holds.
\<close>

definition visibleError :: "state \<Rightarrow> string option" where
  "visibleError s = (if isValidCredentials s then None else Some (errorMessage s))"

subsection \<open>Events\<close>

text \<open>
  The events the page reacts to: typing in one of the four inputs (the \<open>onChange\<close>
  handlers; typing in the email input also changes the text \<open>emailRef\<close> reads), a click on
  "Get Started" or Enter in the email or phone input (\<open>handleGetStarted\<close>), a click on
  "Sign Up" (\<open>handleRegister\<close>), and the settling of an outstanding request.
\<close>

datatype event =
  EmailInput string
| PhoneInput string
| UsernameInput string
| PasswordInput string
| GetStarted
| SignUp
| Settled outcome

definition step :: "RegexUtil \<Rightarrow> ROUTES \<Rightarrow> state \<Rightarrow> event \<Rightarrow> state" where
  "step ru routes s e =
     (case e of
        EmailInput v \<Rightarrow> setEmail v (s\<lparr>emailRef := v\<rparr>)
      | PhoneInput v \<Rightarrow> setPhone v s
      | UsernameInput v \<Rightarrow> setUsername v s
      | PasswordInput v \<Rightarrow> setPassword v s
      | GetStarted \<Rightarrow> handleGetStarted ru s
      | SignUp \<Rightarrow> handleRegister ru s
      | Settled r \<Rightarrow>
          (if inFlight s = 0 then s
           else performRegister_settled routes r (s\<lparr>inFlight := inFlight s - 1\<rparr>)))"

definition run :: "RegexUtil \<Rightarrow> ROUTES \<Rightarrow> event list \<Rightarrow> state" where
  "run ru routes es = foldl (step ru routes) init es"

subsection \<open>A reference instance of the imported modules\<close>

text \<open>
  \<open>utils/regex-util\<close> is not among the sources of the page. The theorems about the page
  hold for every \<open>RegexUtil\<close>; the instance below follows the validation rules as the
  specification words them and only supplies concrete inputs.
\<close>

text \<open>
  Modelled from the spec: the whitespace characters that an email and a username must not
  contain (\<open>utils/regex-util\<close> is missing; the specification says "no whitespace
  characters").
\<close>

definition whitespace :: "char list" where
  "whitespace = [CHR '' '', CHR 0x09, CHR 0x0A, CHR 0x0B, CHR 0x0C, CHR 0x0D]"

text \<open>
  Modelled from the spec: \<open>RegexUtil.isValidEmailFormat\<close>, which is missing. An email
  has the shape \<open>local@domain.tld\<close>: an \<open>@\<close> is present, the local part before it is
  non-empty, and the domain after it has a dot-separated suffix (a dot with text on both
  sides); it has no second \<open>@\<close> and no whitespace.
\<close>

definition spec_isValidEmailFormat :: "string \<Rightarrow> bool" where
  "spec_isValidEmailFormat e =
     (let local_part = takeWhile (\<lambda>c. c \<noteq> CHR ''@'') e;
          rest = dropWhile (\<lambda>c. c \<noteq> CHR ''@'') e;
          domain = tl rest
      in local_part \<noteq> [] \<and> rest \<noteq> [] \<and> CHR ''@'' \<notin> set domain \<and>
         CHR ''.'' \<in> set (butlast (tl domain)) \<and>
         list_all (\<lambda>c. c \<notin> set whitespace) e)"

text \<open>
  Modelled from the spec: \<open>RegexUtil.isValidPhoneFormat\<close>, which is missing. A phone
  number is made of digits with optional separators, parentheses and a country-code
  sign, and has at least ten digits; the shapes \<open>555-123-4567\<close>, \<open>(555) 123-4567\<close> and
  \<open>5551234567\<close> are accepted.
\<close>

definition spec_isValidPhoneFormat :: "string \<Rightarrow> bool" where
  "spec_isValidPhoneFormat p =
     (list_all (\<lambda>c. c \<in> set ''0123456789+-(). '') p \<and>
      10 \<le> length (filter (\<lambda>c. c \<in> set ''0123456789'') p))"

text \<open>
  Modelled from the spec: \<open>RegexUtil.isValidUsernameFormat\<close>, which is missing. A
  username is non-empty, contains no whitespace, and has at least the minimum length.
\<close>

definition spec_isValidUsernameFormat :: "nat \<Rightarrow> string \<Rightarrow> bool" where
  "spec_isValidUsernameFormat m u =
     (u \<noteq> [] \<and> list_all (\<lambda>c. c \<notin> set whitespace) u \<and> m \<le> length u)"

text \<open>
  Modelled from the spec: \<open>RegexUtil.isValidPasswordFormat\<close>, which is missing. A
  password has at least the minimum length, with no other constraint.
\<close>

definition spec_isValidPasswordFormat :: "nat \<Rightarrow> string \<Rightarrow> bool" where
  "spec_isValidPasswordFormat m p = (m \<le> length p)"

text \<open>
  Modelled from the spec: the module \<open>RegexUtil\<close>, which is missing, for given minimum
  lengths of a username and of a password (configuration that the specification leaves
  open).
\<close>

definition spec_RegexUtil :: "nat \<Rightarrow> nat \<Rightarrow> RegexUtil" where
  "spec_RegexUtil mu mp =
     \<lparr>isValidEmailFormat = spec_isValidEmailFormat,
      isValidPhoneFormat = spec_isValidPhoneFormat,
      isValidUsernameFormat = spec_isValidUsernameFormat mu,
      isValidPasswordFormat = spec_isValidPasswordFormat mp,
      MIN_USERNAME_LENGTH = mu,
      MIN_PASSWORD_LENGTH = mp\<rparr>"

text \<open>
  The configuration used in the examples: minimum lengths 3 and 8, and the login route
  \<open>/login\<close> that the page's own "Sign In" link points to.
\<close>

definition example_RegexUtil :: RegexUtil where
  "example_RegexUtil = spec_RegexUtil 3 8"

definition example_ROUTES :: ROUTES where
  "example_ROUTES = \<lparr>LOGIN = ''/login''\<rparr>"

text \<open>
  The page after the user has typed an email, advanced, and filled the three other
  fields with well-formed values.
\<close>

definition filled_form :: state where
  "filled_form =
     run example_RegexUtil example_ROUTES
       [EmailInput ''user@example.com'', GetStarted, PhoneInput ''555-123-4567'',
        UsernameInput ''validUser'', PasswordInput ''s3cretpass'']"

text \<open>Exactly one of a list of conditions holds.\<close>

definition exactly_one :: "bool list \<Rightarrow> bool" where
  "exactly_one bs \<longleftrightarrow> length (filter (\<lambda>b. b) bs) = 1"

text \<open>
  An event is a submission attempt when it calls \<open>handleRegister\<close>: a click on "Sign Up",
  or \<open>handleGetStarted\<close> once the detail fields are shown. A list of events is free of
  submission attempts, run from a state, when none of its events is one in the state it
  arrives in.
\<close>

definition submits :: "state \<Rightarrow> event \<Rightarrow> bool" where
  "submits s e \<longleftrightarrow> e = SignUp \<or> (e = GetStarted \<and> clickedGetStarted s)"

fun submit_free :: "RegexUtil \<Rightarrow> ROUTES \<Rightarrow> state \<Rightarrow> event list \<Rightarrow> bool" where
  "submit_free ru routes s [] = True"
| "submit_free ru routes s (e # es) =
     (\<not> submits s e \<and> submit_free ru routes (step ru routes s e) es)"

text \<open>All four validation rules pass on the current field values.\<close>

definition allValid :: "RegexUtil \<Rightarrow> state \<Rightarrow> bool" where
  "allValid ru s \<longleftrightarrow>
     isValidEmailFormat ru (email s) \<and> isValidPhoneFormat ru (phone s) \<and>
     isValidUsernameFormat ru (username s) \<and> isValidPasswordFormat ru (password s)"

section \<open>Properties\<close>

subsection \<open>Evaluation of the examples\<close>

lemmas setters = setEmail_def setPhone_def setPassword_def setUsername_def
  setIsValidCredentials_def setclickedGetStarted_def setErrorMessage_def

lemma filled_form_eq:
  "filled_form =
     \<lparr>email = ''user@example.com'', phone = ''555-123-4567'', password = ''s3cretpass'',
      username = ''validUser'', isValidCredentials = True, clickedGetStarted = True,
      errorMessage = EXISTING_CREDENTIALS_ERROR, emailRef = ''user@example.com'',
      requests = [], inFlight = 0, navigations = []\<rparr>"
  by (simp add: filled_form_def run_def step_def init_def setters handleGetStarted_def
      isEmailBoxFilled_def)

lemma example_valid:
  "isValidEmailFormat example_RegexUtil ''user@example.com''"
  "isValidPhoneFormat example_RegexUtil ''555-123-4567''"
  "isValidUsernameFormat example_RegexUtil ''validUser''"
  "isValidPasswordFormat example_RegexUtil ''s3cretpass''"
  by (simp_all add: example_RegexUtil_def spec_RegexUtil_def spec_isValidEmailFormat_def
      spec_isValidPhoneFormat_def spec_isValidUsernameFormat_def
      spec_isValidPasswordFormat_def whitespace_def)

lemma example_invalid:
  "\<not> isValidEmailFormat example_RegexUtil ''user.example.com''"
  "\<not> isValidPhoneFormat example_RegexUtil ''12345''"
  "\<not> isValidUsernameFormat example_RegexUtil ''ab cd''"
  "\<not> isValidPasswordFormat example_RegexUtil ''short''"
  by (simp_all add: example_RegexUtil_def spec_RegexUtil_def spec_isValidEmailFormat_def
      spec_isValidPhoneFormat_def spec_isValidUsernameFormat_def
      spec_isValidPasswordFormat_def whitespace_def)

lemma example_min:
  "toString (MIN_USERNAME_LENGTH example_RegexUtil) = ''3''"
  "toString (MIN_PASSWORD_LENGTH example_RegexUtil) = ''8''"
  by (simp_all add: example_RegexUtil_def spec_RegexUtil_def toString.simps)

lemma filled_form_fields:
  "email filled_form = ''user@example.com''"
  "phone filled_form = ''555-123-4567''"
  "username filled_form = ''validUser''"
  "password filled_form = ''s3cretpass''"
  "isValidCredentials filled_form"
  "clickedGetStarted filled_form"
  "requests filled_form = []"
  "inFlight filled_form = 0"
  "navigations filled_form = []"
  by (simp_all add: filled_form_eq)

lemma filled_form_allValid: "allValid example_RegexUtil filled_form"
  by (simp add: allValid_def filled_form_eq example_valid)

subsection \<open>Validation order\<close>

text \<open>
  Claim C1. \<open>handleRegister\<close> checks email, phone, username, password in this order and
  stops at the first rule that fails: the state it returns is the state it was called in
  with the validity flag cleared and the message of that rule, and nothing else changed
  (no request is issued). The result is written without the later rules, so it is the same
  whatever they would answer: when the email rule fails the message is the email message
  for every phone, username and password, and two \<open>RegexUtil\<close> modules that both reject
  the email give the same result however their other rules differ.
\<close>

theorem handleRegister_first_failure:
  "(\<not> isValidEmailFormat ru (email s) \<longrightarrow>
      handleRegister ru s = s\<lparr>isValidCredentials := False, errorMessage := INVALID_EMAIL_ERROR\<rparr>) \<and>
   (isValidEmailFormat ru (email s) \<and> \<not> isValidPhoneFormat ru (phone s) \<longrightarrow>
      handleRegister ru s = s\<lparr>isValidCredentials := False, errorMessage := INVALID_PHONE_ERROR\<rparr>) \<and>
   (isValidEmailFormat ru (email s) \<and> isValidPhoneFormat ru (phone s) \<and>
    \<not> isValidUsernameFormat ru (username s) \<longrightarrow>
      handleRegister ru s =
        s\<lparr>isValidCredentials := False,
          errorMessage := INVALID_USERNAME_ERROR @ toString (MIN_USERNAME_LENGTH ru) @ ''.''\<rparr>) \<and>
   (isValidEmailFormat ru (email s) \<and> isValidPhoneFormat ru (phone s) \<and>
    isValidUsernameFormat ru (username s) \<and> \<not> isValidPasswordFormat ru (password s) \<longrightarrow>
      handleRegister ru s =
        s\<lparr>isValidCredentials := False,
          errorMessage := INVALID_PASSWORD_ERROR @ toString (MIN_PASSWORD_LENGTH ru) @ ''.''\<rparr>) \<and>
   (\<not> isValidEmailFormat ru (email s) \<and> \<not> isValidEmailFormat ru' (email s) \<longrightarrow>
      handleRegister ru' s = handleRegister ru s)"
  by (simp add: handleRegister_def setters)

text \<open>
  The four cases at concrete inputs: every field malformed, then the email repaired, then
  the phone, then the username; and a malformed email under two configurations.
\<close>

theorem handleRegister_first_failure_witness:
  "handleRegister example_RegexUtil (filled_form\<lparr>email := ''user.example.com'', phone := ''12345'',
       username := ''ab cd'', password := ''short''\<rparr>)
     = filled_form\<lparr>email := ''user.example.com'', phone := ''12345'',
       username := ''ab cd'', password := ''short'',
       isValidCredentials := False, errorMessage := ''Invalid email format.''\<rparr> \<and>
   handleRegister example_RegexUtil (filled_form\<lparr>phone := ''12345'',
       username := ''ab cd'', password := ''short''\<rparr>)
     = filled_form\<lparr>phone := ''12345'', username := ''ab cd'', password := ''short'',
       isValidCredentials := False, errorMessage := ''Invalid phone format.''\<rparr> \<and>
   handleRegister example_RegexUtil (filled_form\<lparr>username := ''ab cd'', password := ''short''\<rparr>)
     = filled_form\<lparr>username := ''ab cd'', password := ''short'',
       isValidCredentials := False,
       errorMessage := ''Invalid username. Username cannot contain spaces and minimum length must be at least 3.''\<rparr> \<and>
   handleRegister example_RegexUtil (filled_form\<lparr>password := ''short''\<rparr>)
     = filled_form\<lparr>password := ''short'', isValidCredentials := False,
       errorMessage := ''Invalid password. The length must be at least 8.''\<rparr> \<and>
   handleRegister (spec_RegexUtil 5 12) (filled_form\<lparr>email := ''user.example.com''\<rparr>)
     = handleRegister example_RegexUtil (filled_form\<lparr>email := ''user.example.com''\<rparr>)"
proof -
  let ?e = "filled_form\<lparr>email := ''user.example.com'', phone := ''12345'',
         username := ''ab cd'', password := ''short''\<rparr>"
  let ?p = "filled_form\<lparr>phone := ''12345'', username := ''ab cd'', password := ''short''\<rparr>"
  let ?u = "filled_form\<lparr>username := ''ab cd'', password := ''short''\<rparr>"
  let ?w = "filled_form\<lparr>password := ''short''\<rparr>"
  let ?m = "filled_form\<lparr>email := ''user.example.com''\<rparr>"
  have other: "\<not> isValidEmailFormat (spec_RegexUtil 5 12) ''user.example.com''"
    by (simp add: spec_RegexUtil_def spec_isValidEmailFormat_def)
  show ?thesis
    using
      handleRegister_first_failure [of example_RegexUtil ?e example_RegexUtil]
      handleRegister_first_failure [of example_RegexUtil ?p example_RegexUtil]
      handleRegister_first_failure [of example_RegexUtil ?u example_RegexUtil]
      handleRegister_first_failure [of example_RegexUtil ?w example_RegexUtil]
      handleRegister_first_failure [of example_RegexUtil ?m "spec_RegexUtil 5 12"]
    by (simp add: filled_form_eq example_valid example_invalid example_min other
        INVALID_EMAIL_ERROR_def INVALID_PHONE_ERROR_def INVALID_USERNAME_ERROR_def
        INVALID_PASSWORD_ERROR_def)
qed

subsection \<open>The two paths through \<open>handleRegister\<close>\<close>

lemma handleRegister_allValid:
  "allValid ru s \<Longrightarrow> handleRegister ru s = performRegister (s\<lparr>isValidCredentials := True\<rparr>)"
  by (simp add: allValid_def handleRegister_def setters)

subsection \<open>Submission and the answer of the server\<close>

text \<open>
  Claim C2. When the four validation rules pass, \<open>handleRegister\<close> issues one POST
  request to \<open>auth/register\<close> carrying the four fields and does not navigate; when that
  request resolves, the page makes exactly one \<open>navigate\<close> call, to the login route with
  the state \<open>{ justRegistered: true }\<close>, and shows no error.
\<close>

theorem register_success_navigates:
  assumes "allValid ru s"
  shows "requests (handleRegister ru s) =
           requests s @ [Post ''auth/register''
                           [(''username'', username s), (''email'', email s),
                            (''phone'', phone s), (''password'', password s)]] \<and>
         inFlight (handleRegister ru s) = inFlight s + 1 \<and>
         navigations (handleRegister ru s) = navigations s \<and>
         navigations (step ru routes (handleRegister ru s) (Settled Resolved)) =
           navigations s @ [Navigate (LOGIN routes) [(''justRegistered'', True)]] \<and>
         inFlight (step ru routes (handleRegister ru s) (Settled Resolved)) = inFlight s \<and>
         visibleError (step ru routes (handleRegister ru s) (Settled Resolved)) = None"
  using assms
  by (simp add: handleRegister_allValid performRegister_def step_def
      performRegister_settled_def visibleError_def)

text \<open>The filled form of the examples, submitted and answered with success.\<close>

theorem register_success_navigates_witness:
  "allValid example_RegexUtil filled_form \<and>
   requests (handleRegister example_RegexUtil filled_form) =
     [Post ''auth/register''
        [(''username'', ''validUser''), (''email'', ''user@example.com''),
         (''phone'', ''555-123-4567''), (''password'', ''s3cretpass'')]] \<and>
   navigations (handleRegister example_RegexUtil filled_form) = [] \<and>
   navigations (step example_RegexUtil example_ROUTES
                  (handleRegister example_RegexUtil filled_form) (Settled Resolved)) =
     [Navigate ''/login'' [(''justRegistered'', True)]]"
  using register_success_navigates [OF filled_form_allValid, of example_ROUTES]
  by (simp add: filled_form_allValid filled_form_fields example_ROUTES_def)

text \<open>
  Claim C3. When the four validation rules pass and the request is rejected with status
  403, the page shows the message for credentials already taken, and neither the
  submission nor the answer navigates.
\<close>

theorem register_conflict_403:
  assumes "allValid ru s"
  shows "visibleError (step ru routes (handleRegister ru s) (Settled (Rejected (Some 403)))) =
           Some EXISTING_CREDENTIALS_ERROR \<and>
         navigations (step ru routes (handleRegister ru s) (Settled (Rejected (Some 403)))) =
           navigations s \<and>
         navigations (handleRegister ru s) = navigations s"
  using assms
  by (simp add: handleRegister_allValid performRegister_def step_def
      performRegister_settled_def visibleError_def setters)

text \<open>The filled form of the examples, submitted and answered with status 403.\<close>

theorem register_conflict_403_witness:
  "allValid example_RegexUtil filled_form \<and>
   visibleError (step example_RegexUtil example_ROUTES
                   (handleRegister example_RegexUtil filled_form)
                   (Settled (Rejected (Some 403)))) =
     Some ''Email, phone number, or username already taken.'' \<and>
   navigations (step example_RegexUtil example_ROUTES
                  (handleRegister example_RegexUtil filled_form)
                  (Settled (Rejected (Some 403)))) = []"
  using register_conflict_403 [OF filled_form_allValid, of example_ROUTES]
  by (simp add: filled_form_allValid filled_form_fields EXISTING_CREDENTIALS_ERROR_def)

text \<open>
  Claim C4. When the four validation rules pass and the request is rejected in any other
  way (another status code, or an error that carries no response), the page shows the
  generic server message and does not navigate.
\<close>

theorem register_other_failure:
  assumes "allValid ru s" and "status \<noteq> Some 403"
  shows "visibleError (step ru routes (handleRegister ru s) (Settled (Rejected status))) =
           Some GENERIC_SERVER_ERROR \<and>
         navigations (step ru routes (handleRegister ru s) (Settled (Rejected status))) =
           navigations s"
  using assms
  by (simp add: handleRegister_allValid performRegister_def step_def
      performRegister_settled_def visibleError_def setters)

text \<open>
  The filled form of the examples, submitted and answered with a network failure, and
  with status 500.
\<close>

theorem register_other_failure_witness:
  "allValid example_RegexUtil filled_form \<and>
   visibleError (step example_RegexUtil example_ROUTES
                   (handleRegister example_RegexUtil filled_form)
                   (Settled (Rejected None))) =
     Some ''There was a problem registering your account. Please try again later.'' \<and>
   visibleError (step example_RegexUtil example_ROUTES
                   (handleRegister example_RegexUtil filled_form)
                   (Settled (Rejected (Some 500)))) =
     Some ''There was a problem registering your account. Please try again later.'' \<and>
   navigations (step example_RegexUtil example_ROUTES
                  (handleRegister example_RegexUtil filled_form)
                  (Settled (Rejected None))) = []"
  using register_other_failure [OF filled_form_allValid, of None example_ROUTES]
    register_other_failure [OF filled_form_allValid, of "Some 500" example_ROUTES]
  by (simp add: filled_form_allValid filled_form_fields GENERIC_SERVER_ERROR_def)

subsection \<open>Outstanding requests\<close>

text \<open>
  Claim C5, as stated, fails: the page has no state in which a submission is refused
  because another one is outstanding. The user fills the form with well-formed values and
  clicks "Sign Up" twice before any answer arrives; both clicks issue a request, and two
  requests are outstanding. Every control used is visible when it is used.
\<close>

theorem two_requests_in_flight:
  "\<not> inFlight (run example_RegexUtil example_ROUTES
        [EmailInput ''user@example.com'', GetStarted, PhoneInput ''555-123-4567'',
         UsernameInput ''validUser'', PasswordInput ''s3cretpass'', SignUp, SignUp]) \<le> 1"
proof -
  have "run example_RegexUtil example_ROUTES
        [EmailInput ''user@example.com'', GetStarted, PhoneInput ''555-123-4567'',
         UsernameInput ''validUser'', PasswordInput ''s3cretpass'', SignUp, SignUp]
      = step example_RegexUtil example_ROUTES
          (step example_RegexUtil example_ROUTES filled_form SignUp) SignUp"
    by (simp add: run_def filled_form_def)
  then show ?thesis
    by (simp add: step_def handleRegister_def filled_form_eq example_valid setters
        performRegister_def)
qed

text \<open>
  The number of outstanding requests never exceeds the number of requests issued.
\<close>

lemma inFlight_step:
  "inFlight s \<le> length (requests s) \<Longrightarrow>
   inFlight (step ru routes s e) \<le> length (requests (step ru routes s e))"
  by (cases e)
    (auto simp add: step_def setters handleGetStarted_def handleRegister_def Let_def
      performRegister_def performRegister_settled_def split: outcome.splits)

lemma inFlight_foldl:
  "inFlight s \<le> length (requests s) \<Longrightarrow>
   inFlight (foldl (step ru routes) s es) \<le> length (requests (foldl (step ru routes) s es))"
  by (induction es arbitrary: s) (simp_all add: inFlight_step)

text \<open>
  Claim C5, amended. A submission is not gated on the outstanding requests: every call of
  \<open>handleRegister\<close> whose four validation rules pass issues one more request and adds
  one to the requests outstanding, whatever their number, and a call whose validation
  fails issues none. Every answer removes one outstanding request, and in every reachable
  state the requests outstanding are at most the requests issued.
\<close>

theorem submissions_not_gated:
  "inFlight (handleRegister ru s) = (if allValid ru s then inFlight s + 1 else inFlight s) \<and>
   length (requests (handleRegister ru s)) =
     (if allValid ru s then length (requests s) + 1 else length (requests s)) \<and>
   inFlight (step ru routes s (Settled r)) =
     (if inFlight s = 0 then 0 else inFlight s - 1) \<and>
   inFlight (run ru routes es) \<le> length (requests (run ru routes es))"
proof -
  have "inFlight (run ru routes es) \<le> length (requests (run ru routes es))"
    unfolding run_def by (rule inFlight_foldl) (simp add: init_def)
  moreover have "inFlight (step ru routes s (Settled r)) =
     (if inFlight s = 0 then 0 else inFlight s - 1)"
    by (cases r) (simp_all add: step_def performRegister_settled_def setters)
  moreover have "inFlight (handleRegister ru s) = (if allValid ru s then inFlight s + 1 else inFlight s)"
    by (simp add: allValid_def handleRegister_def setters performRegister_def Let_def)
  moreover have "length (requests (handleRegister ru s)) =
     (if allValid ru s then length (requests s) + 1 else length (requests s))"
    by (simp add: allValid_def handleRegister_def setters performRegister_def Let_def)
  ultimately show ?thesis by simp
qed

text \<open>
  Two submissions of the filled form in a row leave two requests outstanding; a
  submission with a malformed phone number leaves none.
\<close>

theorem submissions_not_gated_witness:
  "inFlight (handleRegister example_RegexUtil (handleRegister example_RegexUtil filled_form)) = 2 \<and>
   inFlight (handleRegister example_RegexUtil (filled_form\<lparr>phone := ''12345''\<rparr>)) = 0"
proof -
  have "allValid example_RegexUtil (handleRegister example_RegexUtil filled_form)"
    using filled_form_allValid
    by (simp add: handleRegister_allValid allValid_def performRegister_def)
  moreover have "\<not> allValid example_RegexUtil (filled_form\<lparr>phone := ''12345''\<rparr>)"
    by (simp add: allValid_def example_invalid)
  ultimately show ?thesis
    using submissions_not_gated [of example_RegexUtil filled_form]
      submissions_not_gated [of example_RegexUtil "handleRegister example_RegexUtil filled_form"]
      submissions_not_gated [of example_RegexUtil "filled_form\<lparr>phone := ''12345''\<rparr>"]
      filled_form_allValid
    by (simp add: filled_form_fields)
qed

subsection \<open>Advancing from the email step\<close>

text \<open>
  The text that \<open>isEmailBoxFilled\<close> reads from the input and the \<open>email\<close> cell agree
  in every reachable state: the only event that changes either sets both.
\<close>

lemma emailRef_step:
  "emailRef s = email s \<Longrightarrow> emailRef (step ru routes s e) = email (step ru routes s e)"
  by (cases e)
    (simp_all add: step_def setters handleGetStarted_def handleRegister_def Let_def
      performRegister_def performRegister_settled_def split: outcome.splits)

lemma emailRef_foldl:
  "emailRef s = email s \<Longrightarrow>
   emailRef (foldl (step ru routes) s es) = email (foldl (step ru routes) s es)"
  by (induction es arbitrary: s) (simp_all add: emailRef_step)

lemma emailRef_run: "emailRef (run ru routes es) = email (run ru routes es)"
  unfolding run_def by (rule emailRef_foldl) (simp add: init_def)

text \<open>
  Claim C6. While the detail fields are not yet shown, \<open>handleGetStarted\<close> shows them
  exactly when the email input is non-empty, changing nothing else, and is a no-op when
  the input is empty; once they are shown it is \<open>handleRegister\<close>.
\<close>

theorem handleGetStarted_advance:
  "(\<not> clickedGetStarted s \<and> emailRef s \<noteq> [] \<longrightarrow>
      handleGetStarted ru s = s\<lparr>clickedGetStarted := True\<rparr>) \<and>
   (\<not> clickedGetStarted s \<and> emailRef s = [] \<longrightarrow> handleGetStarted ru s = s) \<and>
   (\<not> clickedGetStarted s \<longrightarrow>
      clickedGetStarted (handleGetStarted ru s) = (emailRef s \<noteq> [])) \<and>
   (clickedGetStarted s \<longrightarrow> handleGetStarted ru s = handleRegister ru s)"
  by (simp add: handleGetStarted_def isEmailBoxFilled_def setters)

text \<open>
  The initial page (empty input), the page after an email was typed, and the filled form.
\<close>

theorem handleGetStarted_advance_witness:
  "handleGetStarted example_RegexUtil init = init \<and>
   \<not> clickedGetStarted (handleGetStarted example_RegexUtil init) \<and>
   handleGetStarted example_RegexUtil
       (step example_RegexUtil example_ROUTES init (EmailInput ''user@example.com'')) =
     init\<lparr>email := ''user@example.com'', emailRef := ''user@example.com'',
          clickedGetStarted := True\<rparr> \<and>
   handleGetStarted example_RegexUtil filled_form = handleRegister example_RegexUtil filled_form"
  using handleGetStarted_advance [of init example_RegexUtil]
    handleGetStarted_advance
      [of "step example_RegexUtil example_ROUTES init (EmailInput ''user@example.com'')"
          example_RegexUtil]
    handleGetStarted_advance [of filled_form example_RegexUtil]
  by (simp add: filled_form_fields step_def setters init_def)

subsection \<open>The outcome of validation\<close>

text \<open>
  The four validation messages differ, whatever the minimum lengths, and a rejection
  differs from a submission in the validity flag.
\<close>

lemma messages_distinct:
  "INVALID_EMAIL_ERROR \<noteq> INVALID_PHONE_ERROR"
  "INVALID_EMAIL_ERROR \<noteq> INVALID_USERNAME_ERROR @ x"
  "INVALID_EMAIL_ERROR \<noteq> INVALID_PASSWORD_ERROR @ x"
  "INVALID_PHONE_ERROR \<noteq> INVALID_USERNAME_ERROR @ x"
  "INVALID_PHONE_ERROR \<noteq> INVALID_PASSWORD_ERROR @ x"
  "INVALID_USERNAME_ERROR @ x \<noteq> INVALID_PASSWORD_ERROR @ y"
  by (simp_all add: INVALID_EMAIL_ERROR_def INVALID_PHONE_ERROR_def
      INVALID_USERNAME_ERROR_def INVALID_PASSWORD_ERROR_def)

lemma rejected_eq:
  "(s\<lparr>isValidCredentials := False, errorMessage := a\<rparr> =
    s\<lparr>isValidCredentials := False, errorMessage := b\<rparr>) = (a = b)"
proof
  assume "s\<lparr>isValidCredentials := False, errorMessage := a\<rparr> =
    s\<lparr>isValidCredentials := False, errorMessage := b\<rparr>"
  then have "errorMessage (s\<lparr>isValidCredentials := False, errorMessage := a\<rparr>) =
    errorMessage (s\<lparr>isValidCredentials := False, errorMessage := b\<rparr>)"
    by (rule arg_cong)
  then show "a = b" by simp
qed simp

lemma proceed_neq:
  "performRegister (s\<lparr>isValidCredentials := True\<rparr>) \<noteq>
     s\<lparr>isValidCredentials := False, errorMessage := a\<rparr>"
proof
  assume "performRegister (s\<lparr>isValidCredentials := True\<rparr>) =
     s\<lparr>isValidCredentials := False, errorMessage := a\<rparr>"
  then have "isValidCredentials (performRegister (s\<lparr>isValidCredentials := True\<rparr>)) =
     isValidCredentials (s\<lparr>isValidCredentials := False, errorMessage := a\<rparr>)"
    by (rule arg_cong)
  then show False by (simp add: performRegister_def)
qed

text \<open>
  Claim C7. For every state, that is for every email, phone, username and password,
  exactly one of five things happens in \<open>handleRegister\<close>: the request is issued with the
  validity flag set, or the state is returned with the flag cleared and the email message,
  or the phone message, or the username message, or the password message.
\<close>

theorem validation_exactly_one:
  "exactly_one
     [handleRegister ru s = performRegister (s\<lparr>isValidCredentials := True\<rparr>),
      handleRegister ru s = s\<lparr>isValidCredentials := False, errorMessage := INVALID_EMAIL_ERROR\<rparr>,
      handleRegister ru s = s\<lparr>isValidCredentials := False, errorMessage := INVALID_PHONE_ERROR\<rparr>,
      handleRegister ru s =
        s\<lparr>isValidCredentials := False,
          errorMessage := INVALID_USERNAME_ERROR @ toString (MIN_USERNAME_LENGTH ru) @ ''.''\<rparr>,
      handleRegister ru s =
        s\<lparr>isValidCredentials := False,
          errorMessage := INVALID_PASSWORD_ERROR @ toString (MIN_PASSWORD_LENGTH ru) @ ''.''\<rparr>]"
proof -
  consider
      (email) "\<not> isValidEmailFormat ru (email s)"
    | (phone) "isValidEmailFormat ru (email s)" "\<not> isValidPhoneFormat ru (phone s)"
    | (username) "isValidEmailFormat ru (email s)" "isValidPhoneFormat ru (phone s)"
        "\<not> isValidUsernameFormat ru (username s)"
    | (password) "isValidEmailFormat ru (email s)" "isValidPhoneFormat ru (phone s)"
        "isValidUsernameFormat ru (username s)" "\<not> isValidPasswordFormat ru (password s)"
    | (proceed) "allValid ru s"
    unfolding allValid_def by blast
  then show ?thesis
  proof cases
    case email
    then have "handleRegister ru s =
        s\<lparr>isValidCredentials := False, errorMessage := INVALID_EMAIL_ERROR\<rparr>"
      by (simp add: handleRegister_def setters)
    then show ?thesis
      using proceed_neq [of s INVALID_EMAIL_ERROR, symmetric]
      by (simp add: exactly_one_def rejected_eq messages_distinct)
  next
    case phone
    then have "handleRegister ru s =
        s\<lparr>isValidCredentials := False, errorMessage := INVALID_PHONE_ERROR\<rparr>"
      by (simp add: handleRegister_def setters)
    then show ?thesis
      using proceed_neq [of s INVALID_PHONE_ERROR, symmetric]
      by (simp add: exactly_one_def rejected_eq messages_distinct messages_distinct [symmetric])
  next
    case username
    then have "handleRegister ru s =
        s\<lparr>isValidCredentials := False,
          errorMessage := INVALID_USERNAME_ERROR @ toString (MIN_USERNAME_LENGTH ru) @ ''.''\<rparr>"
      by (simp add: handleRegister_def setters)
    then show ?thesis
      using proceed_neq
        [of s "INVALID_USERNAME_ERROR @ toString (MIN_USERNAME_LENGTH ru) @ ''.''", symmetric]
      by (simp add: exactly_one_def rejected_eq messages_distinct messages_distinct [symmetric])
  next
    case password
    then have "handleRegister ru s =
        s\<lparr>isValidCredentials := False,
          errorMessage := INVALID_PASSWORD_ERROR @ toString (MIN_PASSWORD_LENGTH ru) @ ''.''\<rparr>"
      by (simp add: handleRegister_def setters)
    then show ?thesis
      using proceed_neq
        [of s "INVALID_PASSWORD_ERROR @ toString (MIN_PASSWORD_LENGTH ru) @ ''.''", symmetric]
      by (simp add: exactly_one_def rejected_eq messages_distinct messages_distinct [symmetric])
  next
    case proceed
    then show ?thesis
      by (simp add: exactly_one_def handleRegister_allValid proceed_neq)
  qed
qed

text \<open>
  On the filled form of the examples the one outcome is the first.
\<close>

theorem validation_exactly_one_witness:
  "exactly_one
     [handleRegister example_RegexUtil filled_form =
        performRegister (filled_form\<lparr>isValidCredentials := True\<rparr>),
      handleRegister example_RegexUtil filled_form =
        filled_form\<lparr>isValidCredentials := False, errorMessage := INVALID_EMAIL_ERROR\<rparr>,
      handleRegister example_RegexUtil filled_form =
        filled_form\<lparr>isValidCredentials := False, errorMessage := INVALID_PHONE_ERROR\<rparr>,
      handleRegister example_RegexUtil filled_form =
        filled_form\<lparr>isValidCredentials := False,
          errorMessage := INVALID_USERNAME_ERROR @ ''3'' @ ''.''\<rparr>,
      handleRegister example_RegexUtil filled_form =
        filled_form\<lparr>isValidCredentials := False,
          errorMessage := INVALID_PASSWORD_ERROR @ ''8'' @ ''.''\<rparr>]"
  using validation_exactly_one [of example_RegexUtil filled_form]
  by (simp only: example_min)

subsection \<open>Field setters\<close>

text \<open>
  A hidden error message stays hidden, and a visible one stays visible, under every event
  but a submission attempt that passes validation.
\<close>

lemma clears_only_by_submit:
  "\<not> isValidCredentials s \<Longrightarrow> isValidCredentials (step ru routes s e) \<Longrightarrow>
     submits s e \<and> allValid ru s"
  by (cases e)
    (auto simp add: step_def setters submits_def allValid_def handleGetStarted_def
      handleRegister_def Let_def performRegister_settled_def
      split: if_splits outcome.splits)

text \<open>
  Claim C8. Each of \<open>setEmail\<close>, \<open>setPhone\<close>, \<open>setUsername\<close> and \<open>setPassword\<close>
  updates its own cell only: the validity flag, the error message, what the page shows as
  error, the get-started flag and the outstanding requests are unchanged, and setting the
  same value twice is setting it once. \<open>handleRegister\<close> starts by setting the validity
  flag, so its result does not depend on the flag it finds, and hides the error when
  validation passes; no event other than such a submission attempt hides a visible error.
\<close>

theorem setters_frame:
  "setEmail v s = s\<lparr>email := v\<rparr> \<and> setPhone v s = s\<lparr>phone := v\<rparr> \<and>
   setUsername v s = s\<lparr>username := v\<rparr> \<and> setPassword v s = s\<lparr>password := v\<rparr> \<and>
   (\<forall>f \<in> {setEmail, setPhone, setUsername, setPassword}.
      isValidCredentials (f v s) = isValidCredentials s \<and>
      errorMessage (f v s) = errorMessage s \<and>
      visibleError (f v s) = visibleError s \<and>
      clickedGetStarted (f v s) = clickedGetStarted s \<and>
      inFlight (f v s) = inFlight s \<and>
      requests (f v s) = requests s \<and>
      navigations (f v s) = navigations s \<and>
      f v (f v s) = f v s) \<and>
   handleRegister ru (setIsValidCredentials True s) = handleRegister ru s \<and>
   (allValid ru s \<longrightarrow> visibleError (handleRegister ru s) = None) \<and>
   (visibleError s \<noteq> None \<and> visibleError (step ru routes s e) = None \<longrightarrow>
      submits s e \<and> allValid ru s)"
proof -
  have "visibleError s \<noteq> None \<and> visibleError (step ru routes s e) = None \<longrightarrow>
      submits s e \<and> allValid ru s"
    using clears_only_by_submit [of s ru routes e]
    by (simp add: visibleError_def split: if_splits)
  moreover have "handleRegister ru (setIsValidCredentials True s) = handleRegister ru s"
    by (simp add: handleRegister_def setters Let_def)
  moreover have "allValid ru s \<longrightarrow> visibleError (handleRegister ru s) = None"
    by (simp add: handleRegister_allValid visibleError_def performRegister_def)
  moreover have "\<forall>f \<in> {setEmail, setPhone, setUsername, setPassword}.
      isValidCredentials (f v s) = isValidCredentials s \<and>
      errorMessage (f v s) = errorMessage s \<and>
      visibleError (f v s) = visibleError s \<and>
      clickedGetStarted (f v s) = clickedGetStarted s \<and>
      inFlight (f v s) = inFlight s \<and>
      requests (f v s) = requests s \<and>
      navigations (f v s) = navigations s \<and>
      f v (f v s) = f v s"
    by (simp add: setters visibleError_def)
  ultimately show ?thesis
    by (simp only: setters simp_thms)
qed

text \<open>
  After a rejected password, typing a new password leaves the message on the page; the
  next submission hides it.
\<close>

theorem setters_frame_witness:
  "isValidCredentials (setPassword ''s3cretpass'' (handleRegister example_RegexUtil
       (filled_form\<lparr>password := ''short''\<rparr>))) = False \<and>
   visibleError (setPassword ''s3cretpass'' (handleRegister example_RegexUtil
       (filled_form\<lparr>password := ''short''\<rparr>))) =
     Some ''Invalid password. The length must be at least 8.'' \<and>
   allValid example_RegexUtil filled_form \<and>
   visibleError (handleRegister example_RegexUtil filled_form) = None \<and>
   visibleError (filled_form\<lparr>isValidCredentials := False\<rparr>) \<noteq> None \<and>
   visibleError (step example_RegexUtil example_ROUTES
                   (filled_form\<lparr>isValidCredentials := False\<rparr>) SignUp) = None \<and>
   submits (filled_form\<lparr>isValidCredentials := False\<rparr>) SignUp"
proof -
  let ?s = "handleRegister example_RegexUtil (filled_form\<lparr>password := ''short''\<rparr>)"
  let ?t = "filled_form\<lparr>isValidCredentials := False\<rparr>"
  have bad: "?s = filled_form\<lparr>password := ''short'', isValidCredentials := False,
       errorMessage := ''Invalid password. The length must be at least 8.''\<rparr>"
    by (simp add: handleRegister_def setters filled_form_fields example_valid example_invalid
        example_min INVALID_PASSWORD_ERROR_def)
  have t: "allValid example_RegexUtil ?t"
    using filled_form_allValid by (simp add: allValid_def)
  have vis: "visibleError ?t \<noteq> None"
    by (simp add: visibleError_def)
  have hid: "visibleError (step example_RegexUtil example_ROUTES ?t SignUp) = None"
    by (simp add: step_def handleRegister_allValid [OF t] performRegister_def visibleError_def)
  from setters_frame [of "''s3cretpass''" ?s example_RegexUtil example_ROUTES SignUp]
  have a: "isValidCredentials (setPassword ''s3cretpass'' ?s) = isValidCredentials ?s"
    and b: "visibleError (setPassword ''s3cretpass'' ?s) = visibleError ?s"
    by blast+
  from setters_frame [of "[]" filled_form example_RegexUtil example_ROUTES SignUp]
    filled_form_allValid
  have c: "visibleError (handleRegister example_RegexUtil filled_form) = None"
    by blast
  from setters_frame [of "[]" ?t example_RegexUtil example_ROUTES SignUp] vis hid
  have d: "submits ?t SignUp"
    by blast
  show ?thesis
    using a b c d vis hid filled_form_allValid
    by (simp add: bad visibleError_def)
qed

subsection \<open>What a rejected submission leaves unchanged\<close>

text \<open>
  Claim C9. A submission that fails validation returns the state with only the validity
  flag and the error message changed. The continuation of \<open>performRegister\<close> after a
  rejected request changes only the validity flag and the error message of the state it
  resumes in, so a submission answered with status 403 or with any other failure leaves
  the four field values and the get-started flag as they were (the request it issued stays
  in the log of requests). \<open>handleRegister\<close> never changes the four field values or the
  get-started flag.
\<close>

theorem rejected_submission_frame:
  "(\<not> allValid ru s \<longrightarrow>
      handleRegister ru s =
        s\<lparr>isValidCredentials := False, errorMessage := errorMessage (handleRegister ru s)\<rparr>) \<and>
   performRegister_settled routes (Rejected status) s =
     s\<lparr>isValidCredentials := False,
       errorMessage := (if status = Some 403 then EXISTING_CREDENTIALS_ERROR
                        else GENERIC_SERVER_ERROR)\<rparr> \<and>
   (allValid ru s \<longrightarrow>
      step ru routes (handleRegister ru s) (Settled (Rejected status)) =
        s\<lparr>isValidCredentials := False,
          errorMessage := (if status = Some 403 then EXISTING_CREDENTIALS_ERROR
                           else GENERIC_SERVER_ERROR),
          requests := requests (handleRegister ru s)\<rparr>) \<and>
   email (handleRegister ru s) = email s \<and> phone (handleRegister ru s) = phone s \<and>
   username (handleRegister ru s) = username s \<and>
   password (handleRegister ru s) = password s \<and>
   clickedGetStarted (handleRegister ru s) = clickedGetStarted s"
  by (simp add: allValid_def handleRegister_def Let_def setters performRegister_def
      performRegister_settled_def step_def)

text \<open>
  A username with a space, and the filled form answered with status 403 and with a
  network failure.
\<close>

theorem rejected_submission_frame_witness:
  "handleRegister example_RegexUtil (filled_form\<lparr>username := ''ab cd''\<rparr>) =
     filled_form\<lparr>username := ''ab cd'', isValidCredentials := False,
       errorMessage :=
         ''Invalid username. Username cannot contain spaces and minimum length must be at least 3.''\<rparr> \<and>
   email (step example_RegexUtil example_ROUTES
            (handleRegister example_RegexUtil filled_form) (Settled (Rejected (Some 403)))) =
     ''user@example.com'' \<and>
   clickedGetStarted (step example_RegexUtil example_ROUTES
            (handleRegister example_RegexUtil filled_form) (Settled (Rejected None)))"
proof -
  have bad: "\<not> allValid example_RegexUtil (filled_form\<lparr>username := ''ab cd''\<rparr>)"
    by (simp add: allValid_def example_invalid)
  have msg: "errorMessage (handleRegister example_RegexUtil (filled_form\<lparr>username := ''ab cd''\<rparr>)) =
      ''Invalid username. Username cannot contain spaces and minimum length must be at least 3.''"
    by (simp add: handleRegister_def setters filled_form_fields example_valid example_invalid
        example_min INVALID_USERNAME_ERROR_def)
  from rejected_submission_frame
    [of example_RegexUtil "filled_form\<lparr>username := ''ab cd''\<rparr>" example_ROUTES None] bad
  have a: "handleRegister example_RegexUtil (filled_form\<lparr>username := ''ab cd''\<rparr>) =
     filled_form\<lparr>username := ''ab cd'', isValidCredentials := False,
       errorMessage :=
         ''Invalid username. Username cannot contain spaces and minimum length must be at least 3.''\<rparr>"
    by (simp add: msg)
  from rejected_submission_frame [of example_RegexUtil filled_form example_ROUTES "Some 403"]
    filled_form_allValid
  have b: "email (step example_RegexUtil example_ROUTES
            (handleRegister example_RegexUtil filled_form) (Settled (Rejected (Some 403)))) =
     ''user@example.com''"
    by (simp add: filled_form_fields)
  from rejected_submission_frame [of example_RegexUtil filled_form example_ROUTES None]
    filled_form_allValid
  have c: "clickedGetStarted (step example_RegexUtil example_ROUTES
            (handleRegister example_RegexUtil filled_form) (Settled (Rejected None)))"
    by (simp add: filled_form_fields)
  show ?thesis using a b c by simp
qed

subsection \<open>The initial page shows no error\<close>

text \<open>
  While no submission is attempted the validity flag stays set, no request is
  outstanding and the error message keeps its initial text; and the flag is only cleared
  by a submission attempt that fails validation or by the rejection of an outstanding
  request.
\<close>

lemma submit_free_step:
  "isValidCredentials s \<Longrightarrow> inFlight s = 0 \<Longrightarrow> \<not> submits s e \<Longrightarrow>
     isValidCredentials (step ru routes s e) \<and> inFlight (step ru routes s e) = 0 \<and>
     errorMessage (step ru routes s e) = errorMessage s"
  by (cases e) (simp_all add: step_def setters submits_def handleGetStarted_def)

lemma submit_free_foldl:
  "isValidCredentials s \<Longrightarrow> inFlight s = 0 \<Longrightarrow> submit_free ru routes s es \<Longrightarrow>
     isValidCredentials (foldl (step ru routes) s es) \<and>
     inFlight (foldl (step ru routes) s es) = 0 \<and>
     errorMessage (foldl (step ru routes) s es) = errorMessage s"
proof (induction es arbitrary: s)
  case Nil
  then show ?case by simp
next
  case (Cons e es)
  from Cons.prems have ns: "\<not> submits s e" and rest: "submit_free ru routes (step ru routes s e) es"
    by simp_all
  from submit_free_step [OF Cons.prems(1) Cons.prems(2) ns, of ru routes]
  have st: "isValidCredentials (step ru routes s e)" "inFlight (step ru routes s e) = 0"
    "errorMessage (step ru routes s e) = errorMessage s"
    by simp_all
  from Cons.IH [OF st(1) st(2) rest] st(3) show ?case by simp
qed

lemma shows_only_by_failure:
  "isValidCredentials s \<Longrightarrow> \<not> isValidCredentials (step ru routes s e) \<Longrightarrow>
     (submits s e \<and> \<not> allValid ru s) \<or>
     (\<exists>status. e = Settled (Rejected status) \<and> 0 < inFlight s)"
  by (cases e)
    (auto simp add: step_def setters submits_def allValid_def handleGetStarted_def
      handleRegister_def Let_def performRegister_def performRegister_settled_def
      split: if_splits outcome.splits)

text \<open>
  Claim C10. The initial page shows no error: the validity flag is set, although the
  error message is initialised to the text for credentials already taken. The page shows
  no error after any events that contain no submission attempt, and an error only becomes
  visible by a submission attempt whose validation fails or by the rejection of a request
  that a submission issued.
\<close>

theorem initial_no_error:
  "visibleError init = None \<and> isValidCredentials init \<and>
   errorMessage init = EXISTING_CREDENTIALS_ERROR \<and>
   (submit_free ru routes init es \<longrightarrow>
      visibleError (run ru routes es) = None \<and>
      errorMessage (run ru routes es) = EXISTING_CREDENTIALS_ERROR) \<and>
   (visibleError s = None \<and> visibleError (step ru routes s e) \<noteq> None \<longrightarrow>
      (submits s e \<and> \<not> allValid ru s) \<or>
      (\<exists>status. e = Settled (Rejected status) \<and> 0 < inFlight s))"
proof -
  have "submit_free ru routes init es \<longrightarrow>
      visibleError (run ru routes es) = None \<and>
      errorMessage (run ru routes es) = EXISTING_CREDENTIALS_ERROR"
    using submit_free_foldl [of init ru routes es]
    by (simp add: run_def init_def visibleError_def)
  moreover have "visibleError s = None \<and> visibleError (step ru routes s e) \<noteq> None \<longrightarrow>
      (submits s e \<and> \<not> allValid ru s) \<or>
      (\<exists>status. e = Settled (Rejected status) \<and> 0 < inFlight s)"
    using shows_only_by_failure [of s ru routes e]
    by (simp add: visibleError_def split: if_splits)
  ultimately show ?thesis
    by (simp add: init_def visibleError_def)
qed

text \<open>
  Filling the form attempts no submission and shows no error; submitting a short
  password then shows the password message.
\<close>

theorem initial_no_error_witness:
  "submit_free example_RegexUtil example_ROUTES init
     [EmailInput ''user@example.com'', GetStarted, PhoneInput ''555-123-4567'',
      UsernameInput ''validUser'', PasswordInput ''s3cretpass''] \<and>
   visibleError filled_form = None \<and>
   errorMessage filled_form = ''Email, phone number, or username already taken.'' \<and>
   visibleError (filled_form\<lparr>password := ''short''\<rparr>) = None \<and>
   visibleError (step example_RegexUtil example_ROUTES
                   (filled_form\<lparr>password := ''short''\<rparr>) SignUp) =
     Some ''Invalid password. The length must be at least 8.'' \<and>
   submits (filled_form\<lparr>password := ''short''\<rparr>) SignUp \<and>
   \<not> allValid example_RegexUtil (filled_form\<lparr>password := ''short''\<rparr>)"
proof -
  let ?es = "[EmailInput ''user@example.com'', GetStarted, PhoneInput ''555-123-4567'',
      UsernameInput ''validUser'', PasswordInput ''s3cretpass'']"
  let ?s = "filled_form\<lparr>password := ''short''\<rparr>"
  have free: "submit_free example_RegexUtil example_ROUTES init ?es"
    by (simp add: submits_def step_def setters handleGetStarted_def isEmailBoxFilled_def
        init_def)
  have run: "run example_RegexUtil example_ROUTES ?es = filled_form"
    by (simp add: filled_form_def)
  have before: "visibleError ?s = None"
    by (simp add: visibleError_def filled_form_fields)
  have after: "visibleError (step example_RegexUtil example_ROUTES ?s SignUp) =
     Some ''Invalid password. The length must be at least 8.''"
    by (simp add: step_def handleRegister_def setters filled_form_fields example_valid
        example_invalid example_min INVALID_PASSWORD_ERROR_def visibleError_def)
  from initial_no_error [of example_RegexUtil example_ROUTES ?es ?s SignUp] free
  have a: "visibleError (run example_RegexUtil example_ROUTES ?es) = None"
    and b: "errorMessage (run example_RegexUtil example_ROUTES ?es) = EXISTING_CREDENTIALS_ERROR"
    by blast+
  from initial_no_error [of example_RegexUtil example_ROUTES ?es ?s SignUp] before after
  have c: "submits ?s SignUp \<and> \<not> allValid example_RegexUtil ?s"
    by simp
  show ?thesis
    using free a b c before after
    by (simp add: run EXISTING_CREDENTIALS_ERROR_def)
qed

end
